theory Spec2Isabelle
  imports Complex_Main "HOL-Library.Char_ord" "HOL-Library.List_Lexorder"
begin

section \<open>The education indicators dashboard (app.py)\<close>

text \<open>
  The script loads a wide table (one row per country and indicator, one column per
  year), melts it into a long table, and draws four charts and three KPI tiles from
  the rows the sidebar selects. The model follows the script from top to bottom.

  The text of a cell is a list of 8-bit characters, read as the code points U+0000 to
  U+00FF of a Python \<open>str\<close>. The label of a column ranges over all of Unicode, since
  lines 20 to 22 tell its decimal digits from its other characters.
\<close>

subsection \<open>Labels\<close>

text \<open>
  A character of a label, as far as the script can tell characters apart: \<open>Latin c\<close> is
  a code point below U+0100; \<open>Digit n\<close> is the \<open>n\<close>-th decimal digit (category Nd)
  above that, in code point order; \<open>Other n\<close> is the \<open>n\<close>-th of the remaining code
  points. The decimal digits of Unicode outside ASCII all lie above U+00FF and come in
  runs of ten, zero to nine, so the value of \<open>Digit n\<close> is \<open>n mod 10\<close>; the first run
  is the Arabic-Indic one.
\<close>

datatype pychar = Latin char | Digit nat | Other nat

type_synonym pystr = "pychar list"

text \<open>A string literal of the script, as a label.\<close>

definition lat :: "string \<Rightarrow> pystr" where
  "lat s = map Latin s"

text \<open>The text of a label whose characters are all below U+0100.\<close>

fun latin_of :: "pystr \<Rightarrow> string option" where
  "latin_of [] = Some []"
| "latin_of (Latin c # cs) = (case latin_of cs of None \<Rightarrow> None | Some s \<Rightarrow> Some (c # s))"
| "latin_of (Digit n # cs) = None"
| "latin_of (Other n # cs) = None"

subsection \<open>Data frames, floats and exceptions\<close>

text \<open>
  A cell of the frame that \<open>pd.read_csv\<close> returns is NaN (an empty field, or one of
  the reader's NA markers), a token of text, or a boolean: the reader types a column
  whose fields all read True or False as bool. A numeric cell is kept as the literal
  that denotes it. A row shorter than the header reads as NaN in the columns it lacks,
  as the reader pads it.
\<close>

datatype obj = NaN | Str string | Bool bool

record dataframe =
  columns :: "pystr list"
  rows :: "obj list list"

text \<open>
  The identity columns are read as text, or nothing for NaN; a boolean there is kept as
  its text.
\<close>

type_synonym cell = "string option"

fun text_of :: "obj \<Rightarrow> cell" where
  "text_of NaN = None"
| "text_of (Str s) = Some s"
| "text_of (Bool b) = Some (if b then ''True'' else ''False'')"

text \<open>
  A value of a converted column that is not NaN: a float, or a boolean that the
  conversion leaves as it is. The exact decimal value of a literal stands for the
  binary64 number the parser makes of it: rounding is not modelled, nor the literals
  beyond the range of binary64, which the parser turns into an infinity. No definition
  below computes with the value, and the statements below name only values that
  binary64 holds exactly. NaN is \<open>None\<close> of \<open>pynum option\<close>.
\<close>

datatype pynum = Finite rat | PosInf | NegInf | Boolean bool

text \<open>An exception carries the text that \<open>str(e)\<close> returns for it.\<close>

datatype exn =
    ValueError string
  | KeyError string
  | TypeError string
  | IndexError string
  | ZeroDivisionError string
  | OtherError string

fun str_exn :: "exn \<Rightarrow> string" where
  "str_exn (ValueError m) = m"
| "str_exn (KeyError m) = m"
| "str_exn (TypeError m) = m"
| "str_exn (IndexError m) = m"
| "str_exn (ZeroDivisionError m) = m"
| "str_exn (OtherError m) = m"

text \<open>Running a fallible function over a list stops at the first exception.\<close>

fun traverse :: "('a \<Rightarrow> exn + 'b) \<Rightarrow> 'a list \<Rightarrow> exn + 'b list" where
  "traverse f [] = Inr []"
| "traverse f (x # xs) =
     (case f x of
        Inl e \<Rightarrow> Inl e
      | Inr y \<Rightarrow> (case traverse f xs of Inl e \<Rightarrow> Inl e | Inr ys \<Rightarrow> Inr (y # ys)))"

subsection \<open>Characters and numerals\<close>

definition isdigit :: "char \<Rightarrow> bool" where
  "isdigit c \<longleftrightarrow> c \<in> set ''0123456789''"

definition isspace :: "char \<Rightarrow> bool" where
  "isspace c \<longleftrightarrow> c \<in> set [CHR '' '', CHR 0x09, CHR 0x0A, CHR 0x0B, CHR 0x0C, CHR 0x0D]"

definition digit_val :: "char \<Rightarrow> nat" where
  "digit_val c = of_char c - 48"

definition digits_val :: "string \<Rightarrow> nat" where
  "digits_val s = foldl (\<lambda>a c. 10 * a + digit_val c) 0 s"

text \<open>The class \<open>\d\<close> of a \<open>str\<close> pattern: any decimal digit of Unicode.\<close>

fun is_decimal :: "pychar \<Rightarrow> bool" where
  "is_decimal (Latin c) = isdigit c"
| "is_decimal (Digit n) = True"
| "is_decimal (Other n) = False"

fun decimal_val :: "pychar \<Rightarrow> nat" where
  "decimal_val (Latin c) = digit_val c"
| "decimal_val (Digit n) = n mod 10"
| "decimal_val (Other n) = 0"

text \<open>\<open>re.fullmatch(r"\d{4}", s)\<close>: exactly four decimal digits.\<close>

definition fullmatch_d4 :: "pystr \<Rightarrow> bool" where
  "fullmatch_d4 s \<longleftrightarrow> length s = 4 \<and> list_all is_decimal s"

text \<open>
  \<open>int(c)\<close>. The script applies it only to labels that matched \<open>\d{4}\<close>, where it is
  the decimal value of the digits, of whatever script they are.
\<close>

definition py_int :: "pystr \<Rightarrow> int" where
  "py_int s = int (foldl (\<lambda>a c. 10 * a + decimal_val c) 0 s)"

subsection \<open>\<open>pd.to_numeric(..., errors="coerce")\<close>\<close>

text \<open>
  The conversion of one token: blanks, an optional sign, digits with an optional
  fraction (at least one digit in all), an optional exponent, blanks; or one of the
  words for infinity in any letter case. Every other token is coerced to NaN.
\<close>

fun take_sign :: "string \<Rightarrow> bool \<times> string" where
  "take_sign [] = (False, [])"
| "take_sign (c # cs) =
     (if c = CHR ''-'' then (True, cs)
      else if c = CHR ''+'' then (False, cs)
      else (False, c # cs))"

fun take_frac :: "string \<Rightarrow> string \<times> string" where
  "take_frac [] = ([], [])"
| "take_frac (c # cs) =
     (if c = CHR ''.'' then (takeWhile isdigit cs, dropWhile isdigit cs)
      else ([], c # cs))"

text \<open>An exponent mark with no digit after it is not consumed.\<close>

fun take_exp :: "string \<Rightarrow> int \<times> string" where
  "take_exp [] = (0, [])"
| "take_exp (c # cs) =
     (if c = CHR ''e'' \<or> c = CHR ''E'' then
        (case take_sign cs of
           (neg, r) \<Rightarrow>
             (if takeWhile isdigit r = [] then (0, c # cs)
              else ((if neg then - int (digits_val (takeWhile isdigit r))
                     else int (digits_val (takeWhile isdigit r))),
                    dropWhile isdigit r)))
      else (0, c # cs))"

definition scale10 :: "rat \<Rightarrow> int \<Rightarrow> rat" where
  "scale10 m e = (if 0 \<le> e then m * 10 ^ nat e else m / 10 ^ nat (- e))"

definition to_double :: "string \<Rightarrow> rat option" where
  "to_double s =
     (case take_sign (dropWhile isspace s) of
        (neg, p1) \<Rightarrow>
          (case take_frac (dropWhile isdigit p1) of
             (fp, p2) \<Rightarrow>
               (case take_exp p2 of
                  (ex, p3) \<Rightarrow>
                    (if takeWhile isdigit p1 @ fp = [] then None
                     else if dropWhile isspace p3 \<noteq> [] then None
                     else Some (scale10
                       ((if neg then - 1 else 1) * of_nat (digits_val (takeWhile isdigit p1 @ fp)))
                       (ex - int (length fp)))))))"

definition lower :: "char \<Rightarrow> char" where
  "lower c =
     (case map_of (zip ''ABCDEFGHIJKLMNOPQRSTUVWXYZ'' ''abcdefghijklmnopqrstuvwxyz'') c of
        Some d \<Rightarrow> d
      | None \<Rightarrow> c)"

definition floatify :: "string \<Rightarrow> pynum option" where
  "floatify s =
     (case to_double s of
        Some q \<Rightarrow> Some (Finite q)
      | None \<Rightarrow>
          (if map lower s \<in> set [''inf'', ''+inf'', ''infinity'', ''+infinity''] then Some PosInf
           else if map lower s \<in> set [''-inf'', ''-infinity''] then Some NegInf
           else None))"

text \<open>
  NaN stays NaN; a token is converted, or coerced to NaN; a boolean is numeric already
  and stays. Nothing is raised.
\<close>

fun to_numeric :: "obj \<Rightarrow> pynum option" where
  "to_numeric NaN = None"
| "to_numeric (Str s) = floatify s"
| "to_numeric (Bool b) = Some (Boolean b)"

text \<open>
  The same conversion on a label: the parser reads ASCII only, so a label with a
  character above U+00FF is coerced to NaN, a decimal digit or not.
\<close>

definition to_numeric_str :: "pystr \<Rightarrow> pynum option" where
  "to_numeric_str l = (case latin_of l of None \<Rightarrow> None | Some s \<Rightarrow> floatify s)"

text \<open>
  \<open>.astype("Int64")\<close> on the converted column: NaN becomes the missing integer, an
  integral float its integer; any other float is refused.
\<close>

fun astype_Int64 :: "pynum option \<Rightarrow> exn + int option" where
  "astype_Int64 None = Inr None"
| "astype_Int64 (Some (Finite q)) =
     (if q = of_int \<lfloor>q\<rfloor> then Inr (Some \<lfloor>q\<rfloor>)
      else Inl (TypeError ''cannot safely cast non-equivalent float64 to int64''))"
| "astype_Int64 (Some PosInf) =
     Inl (TypeError ''cannot safely cast non-equivalent float64 to int64'')"
| "astype_Int64 (Some NegInf) =
     Inl (TypeError ''cannot safely cast non-equivalent float64 to int64'')"
| "astype_Int64 (Some (Boolean b)) = Inr (Some (if b then 1 else 0))"

subsection \<open>The long table\<close>

text \<open>
  A row of the long frame. The types of the \<open>Year\<close> and \<open>Value\<close> columns change as
  the loader converts them; the \<open>Missing\<close> column is added on the way.
\<close>

record ('y, 'v) long_row =
  Country_Name :: cell
  Country_Code :: cell
  Indicator_Name :: cell
  Indicator_Code :: cell
  Year :: 'y
  Value :: 'v

record ('y, 'v) flagged_row = "('y, 'v) long_row" +
  Missing :: bool

type_synonym canonical = "(int, pynum option) flagged_row"

definition set_Year :: "'a \<Rightarrow> ('y, 'v, 'z) long_row_scheme \<Rightarrow> ('a, 'v, 'z) long_row_scheme" where
  "set_Year y r =
     \<lparr>Country_Name = Country_Name r, Country_Code = Country_Code r,
      Indicator_Name = Indicator_Name r, Indicator_Code = Indicator_Code r,
      Year = y, Value = Value r, \<dots> = long_row.more r\<rparr>"

definition set_Value :: "'a \<Rightarrow> ('y, 'v, 'z) long_row_scheme \<Rightarrow> ('y, 'a, 'z) long_row_scheme" where
  "set_Value v r =
     \<lparr>Country_Name = Country_Name r, Country_Code = Country_Code r,
      Indicator_Name = Indicator_Name r, Indicator_Code = Indicator_Code r,
      Year = Year r, Value = v, \<dots> = long_row.more r\<rparr>"

definition add_Missing :: "bool \<Rightarrow> ('y, 'v) long_row \<Rightarrow> ('y, 'v) flagged_row" where
  "add_Missing b r =
     \<lparr>Country_Name = Country_Name r, Country_Code = Country_Code r,
      Indicator_Name = Indicator_Name r, Indicator_Code = Indicator_Code r,
      Year = Year r, Value = Value r, Missing = b\<rparr>"

subsection \<open>\<open>load_edstats\<close>\<close>

text \<open>Lines 20 to 23: the labels of four digits, within 1970 to 2015, by year.\<close>

definition year_cols :: "dataframe \<Rightarrow> pystr list" where
  "year_cols df =
     sort_key py_int
       (filter (\<lambda>c. 1970 \<le> py_int c \<and> py_int c \<le> 2015)
          (filter fullmatch_d4 (columns df)))"

definition required_cols :: "string list" where
  "required_cols = [''Country Name'', ''Country Code'', ''Indicator Name'', ''Indicator Code'']"

definition missing_required :: "dataframe \<Rightarrow> string list" where
  "missing_required df = filter (\<lambda>c. lat c \<notin> set (columns df)) required_cols"

text \<open>
  The text of a list of strings, as an f-string prints it. \<open>repr_str\<close> is Python's
  \<open>repr\<close> on strings of letters and blanks, which is all it is applied to.
\<close>

definition repr_str :: "string \<Rightarrow> string" where
  "repr_str s = [CHR 0x27] @ s @ [CHR 0x27]"

fun join :: "string \<Rightarrow> string list \<Rightarrow> string" where
  "join sep [] = []"
| "join sep [x] = x"
| "join sep (x # y # ys) = x @ sep @ join sep (y # ys)"

definition repr_list :: "string list \<Rightarrow> string" where
  "repr_list xs = ''['' @ join '', '' (map repr_str xs) @ '']''"

text \<open>The cell of a row under a label.\<close>

definition cell_at :: "pystr list \<Rightarrow> obj list \<Rightarrow> pystr \<Rightarrow> obj" where
  "cell_at cols r c = (case map_of (zip cols r) c of Some v \<Rightarrow> v | None \<Rightarrow> NaN)"

text \<open>\<open>df[cs]\<close>: the sub-frame of the listed columns; a label the frame lacks is a KeyError.\<close>

definition getitem_cols :: "dataframe \<Rightarrow> pystr list \<Rightarrow> exn + dataframe" where
  "getitem_cols df cs =
     (case filter (\<lambda>c. c \<notin> set (columns df)) cs of
        [] \<Rightarrow> Inr \<lparr>columns = cs, rows = map (\<lambda>r. map (cell_at (columns df) r) cs) (rows df)\<rparr>
      | m # ms \<Rightarrow> Inl (KeyError ''not in index''))"

text \<open>
  \<open>melt\<close> with the four identity columns as \<open>id_vars\<close>: one row per value column and
  source row, the value columns in the order given, the source rows in theirs.
\<close>

definition melt :: "dataframe \<Rightarrow> pystr list \<Rightarrow> (pystr, obj) long_row list" where
  "melt df value_vars =
     concat (map (\<lambda>v. map (\<lambda>r.
       \<lparr>Country_Name = text_of (cell_at (columns df) r (lat ''Country Name'')),
        Country_Code = text_of (cell_at (columns df) r (lat ''Country Code'')),
        Indicator_Name = text_of (cell_at (columns df) r (lat ''Indicator Name'')),
        Indicator_Code = text_of (cell_at (columns df) r (lat ''Indicator Code'')),
        Year = v, Value = cell_at (columns df) r v\<rparr>) (rows df)) value_vars)"

text \<open>Line 38, on one row.\<close>

definition year_Int64 :: "(pystr, obj) long_row \<Rightarrow> exn + (int option, obj) long_row" where
  "year_Int64 r =
     (case astype_Int64 (to_numeric_str (Year r)) of
        Inl e \<Rightarrow> Inl e
      | Inr y \<Rightarrow> Inr (set_Year y r))"

text \<open>Line 47, on one row: \<open>astype(int)\<close> refuses a missing integer.\<close>

definition year_int :: "(int option, 'v) flagged_row \<Rightarrow> exn + (int, 'v) flagged_row" where
  "year_int r =
     (case Year r of
        None \<Rightarrow> Inl (ValueError ''cannot convert NA to integer'')
      | Some n \<Rightarrow> Inr (set_Year n r))"

text \<open>
  The loader. \<open>read_csv\<close> stands for \<open>pd.read_csv\<close>: it returns the frame of the file
  at a path, or raises. After the melt of line 31 and the conversion of the years in
  line 38, the inner \<open>map\<close> is line 41, the outer \<open>map\<close> line 43, the \<open>filter\<close>
  line 46 and the last conversion line 47.
\<close>

definition load_edstats :: "(string \<Rightarrow> exn + dataframe) \<Rightarrow> string \<Rightarrow> exn + canonical list" where
  "load_edstats read_csv path =
     (case read_csv path of
        Inl e \<Rightarrow> Inl e
      | Inr df \<Rightarrow>
          if missing_required df \<noteq> [] then
            Inl (ValueError (''Missing columns in CSV: '' @ repr_list (missing_required df)))
          else
            (case getitem_cols df (map lat required_cols @ year_cols df) of
               Inl e \<Rightarrow> Inl e
             | Inr sub \<Rightarrow>
                 (case traverse year_Int64 (melt sub (year_cols df)) of
                    Inl e \<Rightarrow> Inl e
                  | Inr long_df \<Rightarrow>
                      traverse year_int
                        (filter (\<lambda>r. Year r \<noteq> None)
                           (map (\<lambda>r. add_Missing (Value r = None) r)
                              (map (\<lambda>r. set_Value (to_numeric (Value r)) r) long_df))))))"

subsection \<open>Sidebar: the widgets\<close>

text \<open>
  The widgets belong to the UI framework. A widget returns its default on a first run
  and the state the session holds for it afterwards. \<open>pick\<close> is that state, if there
  is one.
\<close>

definition selectbox :: "'a list \<Rightarrow> nat \<Rightarrow> 'a option \<Rightarrow> exn + 'a option" where
  "selectbox options index pick =
     (if options = [] then Inr None
      else if length options \<le> index then
        Inl (OtherError ''Selectbox index must be between 0 and length of options'')
      else
        (case pick of
           None \<Rightarrow> Inr (Some (options ! index))
         | Some v \<Rightarrow> if v \<in> set options then Inr (Some v) else Inr (Some (options ! index))))"

text \<open>
  A range slider hands the pair of its state through as it is: the widget does not put
  it in order or in bounds.
\<close>

definition slider :: "int \<Rightarrow> int \<Rightarrow> int \<times> int \<Rightarrow> (int \<times> int) option \<Rightarrow> int \<times> int" where
  "slider min_value max_value dflt pick = (case pick of None \<Rightarrow> dflt | Some v \<Rightarrow> v)"

record ui =
  pick_country :: "string option"
  pick_indicator :: "string option"
  pick_years :: "(int \<times> int) option"

subsection \<open>Sidebar: domains and defaults (lines 66 to 90)\<close>

fun dropna :: "cell list \<Rightarrow> string list" where
  "dropna [] = []"
| "dropna (None # cs) = dropna cs"
| "dropna (Some s # cs) = s # dropna cs"

text \<open>\<open>unique()\<close> keeps the first occurrence of each value.\<close>

definition unique :: "'a list \<Rightarrow> 'a list" where
  "unique xs = rev (remdups (rev xs))"

text \<open>\<open>series == scalar\<close>: NaN equals nothing, and nothing equals \<open>None\<close>.\<close>

definition eq_scalar :: "cell \<Rightarrow> string option \<Rightarrow> bool" where
  "eq_scalar c v = (case v of None \<Rightarrow> False | Some s \<Rightarrow> c = Some s)"

text \<open>Boolean masks: \<open>a & b\<close> and \<open>frame[mask]\<close>.\<close>

definition mask_and :: "bool list \<Rightarrow> bool list \<Rightarrow> bool list" where
  "mask_and a b = map (\<lambda>(x, y). x \<and> y) (zip a b)"

definition getitem_mask :: "'a list \<Rightarrow> bool list \<Rightarrow> 'a list" where
  "getitem_mask rs m = map fst (filter snd (zip rs m))"

definition countries :: "canonical list \<Rightarrow> string list" where
  "countries data = sort (unique (dropna (map Country_Name data)))"

definition indicators :: "canonical list \<Rightarrow> string list" where
  "indicators data = sort (unique (dropna (map Indicator_Name data)))"

definition default_country :: "string list \<Rightarrow> exn + string" where
  "default_country cs =
     (if ''Arab World'' \<in> set cs then Inr ''Arab World''
      else (case cs of
              [] \<Rightarrow> Inl (IndexError ''list index out of range'')
            | c # _ \<Rightarrow> Inr c))"

text \<open>\<open>list.index\<close>: the position of the first occurrence.\<close>

fun py_index :: "'a list \<Rightarrow> 'a \<Rightarrow> exn + nat" where
  "py_index [] v = Inl (ValueError ''value is not in list'')"
| "py_index (x # xs) v =
     (if x = v then Inr 0
      else (case py_index xs v of Inl e \<Rightarrow> Inl e | Inr i \<Rightarrow> Inr (Suc i)))"

definition ind_for_country :: "canonical list \<Rightarrow> string option \<Rightarrow> string list" where
  "ind_for_country data country =
     sort (unique (dropna (map Indicator_Name
       (getitem_mask data (map (\<lambda>r. eq_scalar (Country_Name r) country) data)))))"

definition candidates :: "string list" where
  "candidates =
     [''School enrollment, primary, female (% gross)'',
      ''School enrollment, primary, female (% net)'',
      ''Adjusted net enrolment rate, primary, female (%)'']"

text \<open>The loop of lines 75 to 82: the first candidate in the list, or \<open>None\<close>.\<close>

fun first_candidate :: "string list \<Rightarrow> string list \<Rightarrow> string option" where
  "first_candidate [] inds = None"
| "first_candidate (candidate # rest) inds =
     (if candidate \<in> set inds then Some candidate else first_candidate rest inds)"

definition default_indicator :: "string list \<Rightarrow> string option" where
  "default_indicator inds = first_candidate candidates inds"

text \<open>Line 87: the index handed to the indicator selectbox.\<close>

definition indicator_index :: "string list \<Rightarrow> exn + nat" where
  "indicator_index inds =
     (case default_indicator inds of
        None \<Rightarrow> Inr 0
      | Some d \<Rightarrow> if d \<in> set inds then py_index inds d else Inr 0)"

subsection \<open>The filtered view (lines 92 to 96)\<close>

definition between :: "int \<Rightarrow> int \<Rightarrow> int \<Rightarrow> bool" where
  "between left right y \<longleftrightarrow> left \<le> y \<and> y \<le> right"

definition filter_df ::
  "canonical list \<Rightarrow> string option \<Rightarrow> string option \<Rightarrow> int \<Rightarrow> int \<Rightarrow> canonical list" where
  "filter_df data country indicator year_min year_max =
     getitem_mask data
       (mask_and
          (mask_and (map (\<lambda>r. eq_scalar (Country_Name r) country) data)
                    (map (\<lambda>r. eq_scalar (Indicator_Name r) indicator) data))
          (map (\<lambda>r. between year_min year_max (Year r)) data))"

subsection \<open>KPIs (lines 99, 100 and 183 to 186)\<close>

definition total_years :: "int \<Rightarrow> int \<Rightarrow> int" where
  "total_years year_min year_max = year_max - year_min + 1"

definition non_missing :: "canonical list \<Rightarrow> int" where
  "non_missing df = int (length (filter (\<lambda>r. \<not> Missing r) df))"

text \<open>\<open>a / b\<close> on integers. The quotient is kept exact.\<close>

definition py_truediv :: "int \<Rightarrow> int \<Rightarrow> exn + rat" where
  "py_truediv a b =
     (if b = 0 then Inl (ZeroDivisionError ''division by zero'')
      else Inr (of_int a / of_int b))"

record kpis =
  selected_years :: int
  non_missing_points :: int
  coverage_pct :: rat
  missing_points :: int
  missing_pct :: rat

definition kpi_row :: "int \<Rightarrow> int \<Rightarrow> canonical list \<Rightarrow> exn + kpis" where
  "kpi_row year_min year_max df =
     (case py_truediv (non_missing df) (total_years year_min year_max) of
        Inl e \<Rightarrow> Inl e
      | Inr cov \<Rightarrow>
          (case py_truediv (total_years year_min year_max - non_missing df)
                  (total_years year_min year_max) of
             Inl e \<Rightarrow> Inl e
           | Inr mis \<Rightarrow>
               Inr \<lparr>selected_years = total_years year_min year_max,
                    non_missing_points = non_missing df,
                    coverage_pct = cov * 100,
                    missing_points = total_years year_min year_max - non_missing df,
                    missing_pct = mis * 100\<rparr>))"

subsection \<open>Charts (lines 104 to 180)\<close>

text \<open>
  A chart is a description: its data, its mark, the selections it declares
  (\<open>add_params\<close>), its transforms, and the selection that sets the opacity of its marks
  with the two opacities (\<open>alt.condition(brush, alt.value(a), alt.value(b))\<close>). The
  tooltips, zooming and the titles are left out. What a chart looks like under a state
  of a selection is the renderer's doing and is not modelled.
\<close>

datatype selection = Brush | Pt

datatype mark = Line | Circle | Bar

datatype transform = Filter selection | Regression

record 'r chart =
  chart_data :: "'r list"
  chart_mark :: mark
  params :: "selection list"
  transforms :: "transform list"
  opacity :: "(selection \<times> rat \<times> rat) option"

record ('y, 'v) missing_int_row = "('y, 'v) flagged_row" +
  MissingInt :: int

definition assign_MissingInt :: "canonical \<Rightarrow> (int, pynum option) missing_int_row" where
  "assign_MissingInt r =
     \<lparr>Country_Name = Country_Name r, Country_Code = Country_Code r,
      Indicator_Name = Indicator_Name r, Indicator_Code = Indicator_Code r,
      Year = Year r, Value = Value r, Missing = Missing r,
      MissingInt = (if Missing r then 1 else 0)\<rparr>"

definition trend :: "canonical list \<Rightarrow> canonical chart" where
  "trend df =
     \<lparr>chart_data = df, chart_mark = Line, params = [Brush, Pt], transforms = [],
      opacity = Some (Brush, 1, 1 / 4)\<rparr>"

definition scatter :: "canonical list \<Rightarrow> canonical chart" where
  "scatter df =
     \<lparr>chart_data = filter (\<lambda>r. Value r \<noteq> None) df, chart_mark = Circle, params = [],
      transforms = [Filter Brush], opacity = Some (Brush, 1, 3 / 20)\<rparr>"

definition reg_line :: "canonical list \<Rightarrow> canonical chart" where
  "reg_line df =
     \<lparr>chart_data = filter (\<lambda>r. Value r \<noteq> None) df, chart_mark = Line, params = [],
      transforms = [Filter Brush, Regression], opacity = None\<rparr>"

definition missing_rate :: "canonical list \<Rightarrow> (int, pynum option) missing_int_row chart" where
  "missing_rate df =
     \<lparr>chart_data = map assign_MissingInt df, chart_mark = Bar, params = [], transforms = [],
      opacity = Some (Brush, 1, 1 / 4)\<rparr>"

definition hist :: "canonical list \<Rightarrow> canonical chart" where
  "hist df =
     \<lparr>chart_data = filter (\<lambda>r. Value r \<noteq> None) df, chart_mark = Bar, params = [],
      transforms = [Filter Brush], opacity = None\<rparr>"



subsection \<open>The script\<close>

definition CSV_URL :: string where
  "CSV_URL = ''https://drive.google.com/uc?export=download&id=1xUH-nEyU-yTTvrgr5f1xQ0izhCHo3JAo''"

record dashboard =
  view :: "canonical list"
  kpi :: kpis
  trend_chart :: "canonical chart"
  model_chart :: "canonical chart \<times> canonical chart"
  missing_rate_chart :: "(int, pynum option) missing_int_row chart"
  hist_chart :: "canonical chart"

text \<open>
  What a run leaves on the page: the error box of line 59 and nothing else, an
  exception that nothing caught, or the dashboard. Lines 191 to 199 hand each chart to
  \<open>st.altair_chart\<close> by itself, so each is a view of its own, with the selections its
  chart declares and no other.
\<close>

datatype screen = Stopped string | Crashed exn | Rendered dashboard

text \<open>Lines 66 to 199, once the table is loaded.\<close>

definition page :: "canonical list \<Rightarrow> ui \<Rightarrow> exn + dashboard" where
  "page data u =
     (case default_country (countries data) of
        Inl e \<Rightarrow> Inl e
      | Inr dc \<Rightarrow>
     (case py_index (countries data) dc of
        Inl e \<Rightarrow> Inl e
      | Inr ci \<Rightarrow>
     (case selectbox (countries data) ci (pick_country u) of
        Inl e \<Rightarrow> Inl e
      | Inr country \<Rightarrow>
     (case indicator_index (ind_for_country data country) of
        Inl e \<Rightarrow> Inl e
      | Inr ii \<Rightarrow>
     (case selectbox (ind_for_country data country) ii (pick_indicator u) of
        Inl e \<Rightarrow> Inl e
      | Inr indicator \<Rightarrow>
     (case slider 1970 2015 (1970, 2015) (pick_years u) of
        (year_min, year_max) \<Rightarrow>
     (case kpi_row year_min year_max (filter_df data country indicator year_min year_max) of
        Inl e \<Rightarrow> Inl e
      | Inr k \<Rightarrow>
          Inr \<lparr>view = filter_df data country indicator year_min year_max,
               kpi = k,
               trend_chart = trend (filter_df data country indicator year_min year_max),
               model_chart =
                 (scatter (filter_df data country indicator year_min year_max),
                  reg_line (filter_df data country indicator year_min year_max)),
               missing_rate_chart =
                 missing_rate (filter_df data country indicator year_min year_max),
               hist_chart = hist (filter_df data country indicator year_min year_max)\<rparr>)))))))"

text \<open>Lines 56 to 60 and what follows them.\<close>

definition app :: "(string \<Rightarrow> exn + dataframe) \<Rightarrow> ui \<Rightarrow> screen" where
  "app read_csv u =
     (case load_edstats read_csv CSV_URL of
        Inl e \<Rightarrow> Stopped (''Could not load CSV from Google Drive. Details: '' @ str_exn e)
      | Inr data \<Rightarrow>
          (case page data u of
             Inl e \<Rightarrow> Crashed e
           | Inr d \<Rightarrow> Rendered d))"

subsection \<open>The table the loader builds, in closed form\<close>

text \<open>
  The in-bound year columns whose label line 38 converts, and those whose label it
  coerces to NaN: line 46 drops the records of the latter.
\<close>

definition kept_cols :: "dataframe \<Rightarrow> pystr list" where
  "kept_cols df = filter (\<lambda>c. to_numeric_str c \<noteq> None) (year_cols df)"

definition dropped_cols :: "dataframe \<Rightarrow> pystr list" where
  "dropped_cols df = filter (\<lambda>c. to_numeric_str c = None) (year_cols df)"

text \<open>The record that a source row \<open>r\<close> and a year column \<open>c\<close> give.\<close>

definition canonical_row :: "dataframe \<Rightarrow> obj list \<Rightarrow> pystr \<Rightarrow> canonical" where
  "canonical_row df r c =
     \<lparr>Country_Name = text_of (cell_at (columns df) r (lat ''Country Name'')),
      Country_Code = text_of (cell_at (columns df) r (lat ''Country Code'')),
      Indicator_Name = text_of (cell_at (columns df) r (lat ''Indicator Name'')),
      Indicator_Code = text_of (cell_at (columns df) r (lat ''Indicator Code'')),
      Year = py_int c,
      Value = to_numeric (cell_at (columns df) r c),
      Missing = (to_numeric (cell_at (columns df) r c) = None)\<rparr>"

definition melted_rows :: "dataframe \<Rightarrow> canonical list" where
  "melted_rows df = concat (map (\<lambda>c. map (\<lambda>r. canonical_row df r c) (rows df)) (kept_cols df))"

text \<open>The country and the indicator of a source row.\<close>

definition identity_of :: "dataframe \<Rightarrow> obj list \<Rightarrow> cell \<times> cell" where
  "identity_of df r =
     (text_of (cell_at (columns df) r (lat ''Country Name'')),
      text_of (cell_at (columns df) r (lat ''Indicator Name'')))"

text \<open>The records of a table that carry a given country, indicator and year.\<close>

definition records_of :: "canonical list \<Rightarrow> cell \<times> cell \<Rightarrow> int \<Rightarrow> canonical list" where
  "records_of data identity y =
     filter (\<lambda>x. (Country_Name x, Indicator_Name x) = identity \<and> Year x = y) data"

subsection \<open>Sample inputs\<close>

text \<open>A reader that finds the given frame at every path.\<close>

definition reads :: "dataframe \<Rightarrow> string \<Rightarrow> exn + dataframe" where
  "reads df path = Inr df"

definition sample_df :: dataframe where
  "sample_df =
     \<lparr>columns = map lat
        [''Country Name'', ''Country Code'', ''Indicator Name'', ''Indicator Code'',
         ''1968'', ''1969'', ''1970'', ''1971'', ''2015'', ''2016''],
      rows = [[Str ''Arab World'', Str ''ARB'', Str ''Literacy'', Str ''LIT'',
               Str ''1'', Str ''2'', Str ''70.5'', Str ''..'', NaN, Str ''9''],
              [Str ''Brazil'', Str ''BRA'', Str ''Literacy'', Str ''LIT'',
               Str ''3'', Str ''4'', Str ''n/a'', Str ''81'', Str ''-2e1'', Str ''8'']]\<rparr>"

definition sample_data :: "canonical list" where
  "sample_data =
     [\<lparr>Country_Name = Some ''Arab World'', Country_Code = Some ''ARB'',
       Indicator_Name = Some ''Literacy'', Indicator_Code = Some ''LIT'',
       Year = 1970, Value = Some (Finite (141 / 2)), Missing = False\<rparr>,
      \<lparr>Country_Name = Some ''Brazil'', Country_Code = Some ''BRA'',
       Indicator_Name = Some ''Literacy'', Indicator_Code = Some ''LIT'',
       Year = 1970, Value = None, Missing = True\<rparr>,
      \<lparr>Country_Name = Some ''Arab World'', Country_Code = Some ''ARB'',
       Indicator_Name = Some ''Literacy'', Indicator_Code = Some ''LIT'',
       Year = 1971, Value = None, Missing = True\<rparr>,
      \<lparr>Country_Name = Some ''Brazil'', Country_Code = Some ''BRA'',
       Indicator_Name = Some ''Literacy'', Indicator_Code = Some ''LIT'',
       Year = 1971, Value = Some (Finite 81), Missing = False\<rparr>,
      \<lparr>Country_Name = Some ''Arab World'', Country_Code = Some ''ARB'',
       Indicator_Name = Some ''Literacy'', Indicator_Code = Some ''LIT'',
       Year = 2015, Value = None, Missing = True\<rparr>,
      \<lparr>Country_Name = Some ''Brazil'', Country_Code = Some ''BRA'',
       Indicator_Name = Some ''Literacy'', Indicator_Code = Some ''LIT'',
       Year = 2015, Value = Some (Finite (- 20)), Missing = False\<rparr>]"

text \<open>
  A source with the same country and indicator on two rows, and a third row whose
  country fields are empty.
\<close>

definition twice_df :: dataframe where
  "twice_df =
     \<lparr>columns = map lat
        [''Country Name'', ''Country Code'', ''Indicator Name'', ''Indicator Code'', ''1970''],
      rows = [[Str ''Chad'', Str ''TCD'', Str ''Literacy'', Str ''LIT'', Str ''40''],
              [Str ''Chad'', Str ''TCD'', Str ''Literacy'', Str ''LIT'', Str ''40''],
              [NaN, NaN, Str ''Literacy'', Str ''LIT'', Str ''41'']]\<rparr>"

definition twice_record :: canonical where
  "twice_record =
     \<lparr>Country_Name = Some ''Chad'', Country_Code = Some ''TCD'',
      Indicator_Name = Some ''Literacy'', Indicator_Code = Some ''LIT'',
      Year = 1970, Value = Some (Finite 40), Missing = False\<rparr>"

definition nameless_record :: canonical where
  "nameless_record =
     \<lparr>Country_Name = None, Country_Code = None,
      Indicator_Name = Some ''Literacy'', Indicator_Code = Some ''LIT'',
      Year = 1970, Value = Some (Finite 41), Missing = False\<rparr>"

text \<open>
  A source with two columns for years in bound: 1970 in ASCII digits and 1971 in
  Arabic-Indic digits.
\<close>

definition arabic_1971 :: pystr where
  "arabic_1971 = [Digit 1, Digit 9, Digit 7, Digit 1]"

definition mixed_df :: dataframe where
  "mixed_df =
     \<lparr>columns = map lat
        [''Country Name'', ''Country Code'', ''Indicator Name'', ''Indicator Code'', ''1970'']
        @ [arabic_1971],
      rows = [[Str ''Chad'', Str ''TCD'', Str ''Literacy'', Str ''LIT'', Str ''40'', Str ''41''],
              [Str ''Peru'', Str ''PER'', Str ''Literacy'', Str ''LIT'', Str ''50'', Str ''51'']]\<rparr>"

definition mixed_data :: "canonical list" where
  "mixed_data =
     [\<lparr>Country_Name = Some ''Chad'', Country_Code = Some ''TCD'',
       Indicator_Name = Some ''Literacy'', Indicator_Code = Some ''LIT'',
       Year = 1970, Value = Some (Finite 40), Missing = False\<rparr>,
      \<lparr>Country_Name = Some ''Peru'', Country_Code = Some ''PER'',
       Indicator_Name = Some ''Literacy'', Indicator_Code = Some ''LIT'',
       Year = 1970, Value = Some (Finite 50), Missing = False\<rparr>]"

text \<open>A source whose only year column the reader types as bool.\<close>

definition flag_df :: dataframe where
  "flag_df =
     \<lparr>columns = map lat
        [''Country Name'', ''Country Code'', ''Indicator Name'', ''Indicator Code'', ''1970''],
      rows = [[Str ''Chad'', Str ''TCD'', Str ''Literacy'', Str ''LIT'', Bool True]]\<rparr>"

definition flag_record :: canonical where
  "flag_record =
     \<lparr>Country_Name = Some ''Chad'', Country_Code = Some ''TCD'',
      Indicator_Name = Some ''Literacy'', Indicator_Code = Some ''LIT'',
      Year = 1970, Value = Some (Boolean True), Missing = False\<rparr>"

text \<open>A source that lacks two of the identity columns.\<close>

definition headless_df :: dataframe where
  "headless_df =
     \<lparr>columns = map lat [''Country Name'', ''Indicator Name'', ''1970''],
      rows = [[Str ''Chad'', Str ''Literacy'', Str ''40'']]\<rparr>"



section \<open>Properties of the loader\<close>

subsection \<open>Lists and exceptions\<close>

lemma traverse_Inr_map:
  "(\<And>x. x \<in> set xs \<Longrightarrow> f x = Inr (g x)) \<Longrightarrow> traverse f xs = Inr (map g xs)"
  by (induction xs) simp_all

lemma length_concat_map_map:
  "length (concat (map (\<lambda>c. map (f c) rs) cs)) = length cs * length rs"
  by (induction cs) simp_all

lemma filter_concat_map_map:
  assumes "\<And>c r. P (f c r) \<longleftrightarrow> Q c"
  shows "filter P (concat (map (\<lambda>c. map (f c) rs) cs)) =
         concat (map (\<lambda>c. map (f c) rs) (filter Q cs))"
  by (induction cs) (simp_all add: assms)

subsection \<open>Year labels\<close>

lemma isdigit_not_space: "isdigit c \<Longrightarrow> \<not> isspace c"
  by (auto simp: isdigit_def isspace_def)

lemma isdigit_not_sign: "isdigit c \<Longrightarrow> c \<noteq> CHR ''-'' \<and> c \<noteq> CHR ''+''"
  by (auto simp: isdigit_def)

lemma to_double_digits:
  assumes "list_all isdigit s" and "s \<noteq> []"
  shows "to_double s = Some (of_nat (digits_val s))"
proof -
  obtain c cs where s: "s = c # cs" using assms(2) by (cases s) auto
  have c: "isdigit c" using assms(1) s by simp
  have all: "\<forall>x\<in>set s. isdigit x" using assms(1) by (simp add: list_all_iff)
  have sp: "dropWhile isspace s = s" using c s by (simp add: isdigit_not_space)
  have sg: "take_sign s = (False, s)" using c s isdigit_not_sign[of c] by simp
  have tw: "takeWhile isdigit s = s" using all by (simp add: takeWhile_eq_all_conv)
  have dw: "dropWhile isdigit s = []" using all by simp
  show ?thesis
    unfolding to_double_def sp sg using assms(2) by (simp add: tw dw scale10_def)
qed

lemma latin_of_lat: "latin_of (lat s) = Some s"
  by (induction s) (simp_all add: lat_def)

lemma latin_of_Some: "latin_of l = Some s \<Longrightarrow> l = lat s"
  by (induction l arbitrary: s rule: latin_of.induct)
     (auto simp: lat_def split: option.splits)

lemma py_int_lat: "py_int (lat s) = int (digits_val s)"
  by (simp add: py_int_def digits_val_def lat_def foldl_map)

lemma fullmatch_d4_lat: "fullmatch_d4 (lat s) \<longleftrightarrow> length s = 4 \<and> list_all isdigit s"
  by (simp add: fullmatch_d4_def lat_def list_all_iff)

text \<open>Line 38 on a label of four decimal digits: its year if it is in ASCII, NaN if not.\<close>

lemma to_numeric_str_d4:
  assumes "fullmatch_d4 c"
  shows "to_numeric_str c =
    (case latin_of c of None \<Rightarrow> None | Some s \<Rightarrow> Some (Finite (of_int (py_int c))))"
proof (cases "latin_of c")
  case None
  then show ?thesis by (simp add: to_numeric_str_def)
next
  case (Some s)
  then have c: "c = lat s" by (rule latin_of_Some)
  have "list_all isdigit s" "s \<noteq> []"
    using assms unfolding c fullmatch_d4_lat by auto
  then have "to_double s = Some (of_nat (digits_val s))" by (rule to_double_digits)
  then show ?thesis using Some by (simp add: to_numeric_str_def floatify_def c py_int_lat)
qed

lemma to_numeric_str_None:
  "fullmatch_d4 c \<Longrightarrow> to_numeric_str c = None \<longleftrightarrow> latin_of c = None"
  by (simp add: to_numeric_str_d4 split: option.splits)

lemma year_Int64_d4:
  assumes "fullmatch_d4 (Year x)"
  shows "year_Int64 x =
    Inr (set_Year (if to_numeric_str (Year x) = None then None else Some (py_int (Year x))) x)"
  using assms by (simp add: year_Int64_def to_numeric_str_d4 split: option.splits)

lemma digit_val_less: "isdigit c \<Longrightarrow> digit_val c < 10"
  by (auto simp: isdigit_def digit_val_def)

lemma digit_val_inj: "isdigit c \<Longrightarrow> isdigit d \<Longrightarrow> digit_val c = digit_val d \<Longrightarrow> c = d"
  by (auto simp: isdigit_def digit_val_def)

lemma decimal_step:
  fixes p q x y :: nat
  assumes "10 * p + x = 10 * q + y" and "x < 10" and "y < 10"
  shows "p = q \<and> x = y"
  using assms by arith

lemma digits_val_inj:
  assumes s: "length s = 4 \<and> list_all isdigit s" and t: "length t = 4 \<and> list_all isdigit t"
    and eq: "digits_val s = digits_val t"
  shows "s = t"
proof -
  obtain a b c d where sv: "s = [a, b, c, d]"
    using s by (auto simp: length_Suc_conv numeral_eq_Suc)
  obtain e f g h where tv: "t = [e, f, g, h]"
    using t by (auto simp: length_Suc_conv numeral_eq_Suc)
  have ds: "isdigit a" "isdigit b" "isdigit c" "isdigit d"
    using s sv by simp_all
  have dt: "isdigit e" "isdigit f" "isdigit g" "isdigit h"
    using t tv by simp_all
  have e0: "10 * (10 * (10 * digit_val a + digit_val b) + digit_val c) + digit_val d =
        10 * (10 * (10 * digit_val e + digit_val f) + digit_val g) + digit_val h"
    using eq by (simp add: digits_val_def sv tv)
  have e1: "10 * (10 * digit_val a + digit_val b) + digit_val c =
        10 * (10 * digit_val e + digit_val f) + digit_val g" and d1: "digit_val d = digit_val h"
    using decimal_step[OF e0 digit_val_less[OF ds(4)] digit_val_less[OF dt(4)]] by simp_all
  have e2: "10 * digit_val a + digit_val b = 10 * digit_val e + digit_val f"
    and d2: "digit_val c = digit_val g"
    using decimal_step[OF e1 digit_val_less[OF ds(3)] digit_val_less[OF dt(3)]] by simp_all
  have d3: "digit_val a = digit_val e" and d4: "digit_val b = digit_val f"
    using decimal_step[OF e2 digit_val_less[OF ds(2)] digit_val_less[OF dt(2)]] by simp_all
  show ?thesis
    using ds dt d1 d2 d3 d4 by (simp add: sv tv digit_val_inj)
qed

lemma set_year_cols:
  "set (year_cols df) =
   {c \<in> set (columns df). fullmatch_d4 c \<and> 1970 \<le> py_int c \<and> py_int c \<le> 2015}"
  by (auto simp: year_cols_def)

lemma distinct_year_cols: "distinct (columns df) \<Longrightarrow> distinct (year_cols df)"
  by (simp add: year_cols_def)

lemma kept_cols_lat:
  assumes "c \<in> set (kept_cols df)"
  obtains s where "c = lat s" and "length s = 4 \<and> list_all isdigit s"
proof -
  have f: "fullmatch_d4 c" and n: "to_numeric_str c \<noteq> None"
    using assms by (auto simp: kept_cols_def set_year_cols)
  then obtain s where "latin_of c = Some s"
    using to_numeric_str_None[OF f] by auto
  then have c: "c = lat s" by (rule latin_of_Some)
  then show ?thesis using that f fullmatch_d4_lat by auto
qed

text \<open>The labels that survive line 46 stand for different years.\<close>

lemma distinct_years:
  assumes "distinct (columns df)"
  shows "distinct (map py_int (kept_cols df))"
proof -
  have "inj_on py_int (set (kept_cols df))"
  proof (rule inj_onI)
    fix c d assume c: "c \<in> set (kept_cols df)" and d: "d \<in> set (kept_cols df)"
      and eq: "py_int c = py_int d"
    obtain s where s: "c = lat s" "length s = 4 \<and> list_all isdigit s"
      using c by (rule kept_cols_lat)
    obtain t where t: "d = lat t" "length t = 4 \<and> list_all isdigit t"
      using d by (rule kept_cols_lat)
    have "digits_val s = digits_val t" using eq by (simp add: s(1) t(1) py_int_lat)
    then have "s = t" using s(2) t(2) by (intro digits_val_inj)
    then show "c = d" by (simp add: s(1) t(1))
  qed
  moreover have "distinct (kept_cols df)"
    using assms by (simp add: kept_cols_def distinct_year_cols)
  ultimately show ?thesis by (simp add: distinct_map)
qed

subsection \<open>The loader, step by step\<close>

lemma missing_required_Nil:
  "missing_required df = [] \<longleftrightarrow> set (map lat required_cols) \<subseteq> set (columns df)"
  by (auto simp: missing_required_def filter_empty_conv)

lemma getitem_cols_ok:
  assumes "set cs \<subseteq> set (columns df)"
  shows "getitem_cols df cs =
    Inr \<lparr>columns = cs, rows = map (\<lambda>r. map (cell_at (columns df) r) cs) (rows df)\<rparr>"
proof -
  have "filter (\<lambda>c. c \<notin> set (columns df)) cs = []"
    using assms by (auto simp: filter_empty_conv)
  then show ?thesis by (simp add: getitem_cols_def)
qed

lemma cell_at_map: "c \<in> set cs \<Longrightarrow> cell_at cs (map f cs) c = f c"
  by (simp add: cell_at_def map_of_zip_map)

lemma melt_sub:
  assumes req: "set (map lat required_cols) \<subseteq> set cs" and ys: "set ys \<subseteq> set cs"
  shows "melt \<lparr>columns = cs, rows = map (\<lambda>r. map (cell_at cols r) cs) rs\<rparr> ys =
     concat (map (\<lambda>v. map (\<lambda>r.
       \<lparr>Country_Name = text_of (cell_at cols r (lat ''Country Name'')),
        Country_Code = text_of (cell_at cols r (lat ''Country Code'')),
        Indicator_Name = text_of (cell_at cols r (lat ''Indicator Name'')),
        Indicator_Code = text_of (cell_at cols r (lat ''Indicator Code'')),
        Year = v, Value = cell_at cols r v\<rparr>) rs) ys)"
proof -
  have r: "lat ''Country Name'' \<in> set cs" "lat ''Country Code'' \<in> set cs"
          "lat ''Indicator Name'' \<in> set cs" "lat ''Indicator Code'' \<in> set cs"
    using req by (auto simp: required_cols_def)
  have "\<And>v. v \<in> set ys \<Longrightarrow> v \<in> set cs" using ys by auto
  then show ?thesis
    unfolding melt_def
    by (auto simp: cell_at_map r comp_def intro!: arg_cong[where f=concat])
qed

text \<open>The whole loader on a frame that has the identity columns.\<close>

lemma load_edstats_eq:
  assumes rd: "read_csv path = Inr df" and ok: "missing_required df = []"
  shows "load_edstats read_csv path = Inr (melted_rows df)"
proof -
  let ?cs = "map lat required_cols @ year_cols df"
  have req: "set (map lat required_cols) \<subseteq> set (columns df)"
    using ok by (simp add: missing_required_Nil)
  have sub: "set ?cs \<subseteq> set (columns df)" using req by (auto simp: set_year_cols)
  let ?row = "\<lambda>v r.
       \<lparr>Country_Name = text_of (cell_at (columns df) r (lat ''Country Name'')),
        Country_Code = text_of (cell_at (columns df) r (lat ''Country Code'')),
        Indicator_Name = text_of (cell_at (columns df) r (lat ''Indicator Name'')),
        Indicator_Code = text_of (cell_at (columns df) r (lat ''Indicator Code'')),
        Year = v, Value = cell_at (columns df) r v\<rparr>"
  let ?m = "concat (map (\<lambda>v. map (?row v) (rows df)) (year_cols df))"
  have m: "melt \<lparr>columns = ?cs, rows = map (\<lambda>r. map (cell_at (columns df) r) ?cs) (rows df)\<rparr>
             (year_cols df) = ?m"
    by (rule melt_sub) auto
  let ?y = "\<lambda>c. if to_numeric_str c = None then None else Some (py_int c)"
  let ?g = "\<lambda>r::(pystr, obj) long_row. set_Year (?y (Year r)) r"
  have t1: "traverse year_Int64 ?m = Inr (map ?g ?m)"
  proof (rule traverse_Inr_map)
    fix x assume "x \<in> set ?m"
    then have "Year x \<in> set (year_cols df)" by auto
    then have "fullmatch_d4 (Year x)" by (simp add: set_year_cols)
    then show "year_Int64 x = Inr (?g x)" by (rule year_Int64_d4)
  qed
  let ?flag = "\<lambda>c r. add_Missing (to_numeric (cell_at (columns df) r c) = None)
      (set_Value (to_numeric (cell_at (columns df) r c)) (set_Year (?y c) (?row c r)))"
  have l3: "map (\<lambda>r. add_Missing (Value r = None) r)
              (map (\<lambda>r. set_Value (to_numeric (Value r)) r) (map ?g ?m)) =
            concat (map (\<lambda>c. map (?flag c) (rows df)) (year_cols df))"
    by (simp add: map_concat comp_def set_Year_def set_Value_def add_Missing_def cong: if_cong)
  have l4: "filter (\<lambda>r. Year r \<noteq> None) (concat (map (\<lambda>c. map (?flag c) (rows df)) (year_cols df))) =
            concat (map (\<lambda>c. map (?flag c) (rows df)) (kept_cols df))"
    unfolding kept_cols_def
    by (rule filter_concat_map_map) (simp add: set_Year_def set_Value_def add_Missing_def)
  let ?l4 = "concat (map (\<lambda>c. map (?flag c) (rows df)) (kept_cols df))"
  let ?h = "\<lambda>r::(int option, pynum option) flagged_row. set_Year (the (Year r)) r"
  have t2: "traverse year_int ?l4 = Inr (map ?h ?l4)"
  proof (rule traverse_Inr_map)
    fix x assume "x \<in> set ?l4"
    then have "Year x \<noteq> None"
      by (auto simp: kept_cols_def set_Year_def set_Value_def add_Missing_def)
    then show "year_int x = Inr (?h x)" by (auto simp: year_int_def)
  qed
  have fin: "map ?h ?l4 = melted_rows df"
  proof -
    have "\<And>c r. c \<in> set (kept_cols df) \<Longrightarrow> ?h (?flag c r) = canonical_row df r c"
      by (auto simp: kept_cols_def set_Year_def set_Value_def add_Missing_def canonical_row_def)
    then show ?thesis
      unfolding melted_rows_def map_concat
      by (auto simp: comp_def intro!: arg_cong[where f=concat])
  qed
  show ?thesis
    unfolding load_edstats_def
    by (simp only: rd ok getitem_cols_ok[OF sub] m t1 l3 l4 t2 fin sum.case simp_thms if_False)
qed

lemma load_edstats_Inr:
  assumes "load_edstats read_csv path = Inr data"
  obtains df where "read_csv path = Inr df" and "missing_required df = []"
    and "data = melted_rows df"
proof (cases "read_csv path")
  case (Inl e)
  then show ?thesis using assms by (simp add: load_edstats_def)
next
  case (Inr df)
  show ?thesis
  proof (cases "missing_required df = []")
    case True
    then have "load_edstats read_csv path = Inr (melted_rows df)"
      using Inr by (rule load_edstats_eq[rotated])
    then show ?thesis using that[OF Inr True] assms by simp
  next
    case False
    then show ?thesis using assms Inr by (simp add: load_edstats_def)
  qed
qed

lemma set_melted_rows:
  "set (melted_rows df) = (\<lambda>(c, r). canonical_row df r c) ` (set (kept_cols df) \<times> set (rows df))"
  by (auto simp: melted_rows_def)

lemma set_kept_cols: "set (kept_cols df) \<subseteq> set (year_cols df)"
  by (auto simp: kept_cols_def)

subsection \<open>The sample inputs, evaluated\<close>

lemmas label_eval = lat_def fullmatch_d4_def isdigit_def py_int_def digit_val_def
lemmas parse_eval = to_numeric_str_def floatify_def to_double_def isspace_def isdigit_def
  lower_def scale10_def digits_val_def digit_val_def lat_def

lemma year_cols_sample: "year_cols sample_df = map lat [''1970'', ''1971'', ''2015'']"
  by (simp add: year_cols_def sample_df_def label_eval)

lemma kept_cols_sample: "kept_cols sample_df = map lat [''1970'', ''1971'', ''2015'']"
  unfolding kept_cols_def year_cols_sample by (simp add: parse_eval)

lemma melted_sample: "melted_rows sample_df = sample_data"
  unfolding melted_rows_def kept_cols_sample
  by (simp add: sample_df_def sample_data_def canonical_row_def cell_at_def py_int_def
      parse_eval)

lemma load_sample: "load_edstats (reads sample_df) path = Inr sample_data"
proof -
  have "missing_required sample_df = []"
    by (simp add: missing_required_def required_cols_def sample_df_def lat_def)
  then have "load_edstats (reads sample_df) path = Inr (melted_rows sample_df)"
    by (intro load_edstats_eq) (simp add: reads_def)
  then show ?thesis by (simp add: melted_sample)
qed

lemma load_twice:
  "load_edstats (reads twice_df) path = Inr [twice_record, twice_record, nameless_record]"
proof -
  have yc: "kept_cols twice_df = [lat ''1970'']"
    by (simp add: kept_cols_def year_cols_def twice_df_def label_eval parse_eval)
  have mr: "melted_rows twice_df = [twice_record, twice_record, nameless_record]"
    unfolding melted_rows_def yc
    by (simp add: twice_df_def twice_record_def nameless_record_def canonical_row_def
        cell_at_def py_int_def parse_eval)
  have "missing_required twice_df = []"
    by (simp add: missing_required_def required_cols_def twice_df_def lat_def)
  then have "load_edstats (reads twice_df) path = Inr (melted_rows twice_df)"
    by (intro load_edstats_eq) (simp add: reads_def)
  then show ?thesis by (simp add: mr)
qed

lemma year_cols_mixed: "year_cols mixed_df = [lat ''1970'', arabic_1971]"
  by (simp add: year_cols_def mixed_df_def arabic_1971_def label_eval)

lemma kept_cols_mixed: "kept_cols mixed_df = [lat ''1970'']"
  unfolding kept_cols_def year_cols_mixed by (simp add: arabic_1971_def parse_eval)

lemma dropped_cols_mixed: "dropped_cols mixed_df = [arabic_1971]"
  unfolding dropped_cols_def year_cols_mixed by (simp add: arabic_1971_def parse_eval)

lemma load_mixed: "load_edstats (reads mixed_df) path = Inr mixed_data"
proof -
  have mr: "melted_rows mixed_df = mixed_data"
    unfolding melted_rows_def kept_cols_mixed
    by (simp add: mixed_df_def mixed_data_def arabic_1971_def canonical_row_def
        cell_at_def py_int_def parse_eval)
  have "missing_required mixed_df = []"
    by (simp add: missing_required_def required_cols_def mixed_df_def lat_def)
  then have "load_edstats (reads mixed_df) path = Inr (melted_rows mixed_df)"
    by (intro load_edstats_eq) (simp add: reads_def)
  then show ?thesis by (simp add: mr)
qed

lemma load_flag: "load_edstats (reads flag_df) path = Inr [flag_record]"
proof -
  have yc: "kept_cols flag_df = [lat ''1970'']"
    by (simp add: kept_cols_def year_cols_def flag_df_def label_eval parse_eval)
  have mr: "melted_rows flag_df = [flag_record]"
    unfolding melted_rows_def yc
    by (simp add: flag_df_def flag_record_def canonical_row_def cell_at_def py_int_def
        parse_eval)
  have "missing_required flag_df = []"
    by (simp add: missing_required_def required_cols_def flag_df_def lat_def)
  then have "load_edstats (reads flag_df) path = Inr (melted_rows flag_df)"
    by (intro load_edstats_eq) (simp add: reads_def)
  then show ?thesis by (simp add: mr)
qed

text \<open>
  Keys made of a row part and a column part are pairwise distinct when the row parts
  and the column parts are.
\<close>

lemma distinct_keys:
  assumes "distinct (map p cs)" and "distinct (map g rs)"
  shows "distinct (concat (map (\<lambda>c. map (\<lambda>r. (g r, p c)) rs) cs))"
  using assms
proof (induction cs)
  case Nil
  then show ?case by simp
next
  case (Cons c cs)
  have "distinct (map (\<lambda>r. (g r, p c)) rs)"
    using Cons.prems(2) by (simp add: distinct_map inj_on_def)
  moreover have "distinct (concat (map (\<lambda>c. map (\<lambda>r. (g r, p c)) rs) cs))"
    using Cons by simp
  moreover have "set (map (\<lambda>r. (g r, p c)) rs) \<inter>
      set (concat (map (\<lambda>c. map (\<lambda>r. (g r, p c)) rs) cs)) = {}"
    using Cons.prems(1) by auto
  ultimately show ?case by simp
qed

text \<open>Among the in-bound year columns, line 38 fails on the labels with a digit outside ASCII.\<close>

lemma decimal_latin_of:
  "list_all is_decimal c \<Longrightarrow> latin_of c = None \<longleftrightarrow> (\<exists>n. Digit n \<in> set c)"
proof (induction c rule: latin_of.induct)
  case 1
  then show ?case by simp
next
  case (2 ch cs)
  then show ?case by (auto split: option.splits)
next
  case (3 n cs)
  then show ?case by auto
next
  case (4 n cs)
  then show ?case by simp
qed

lemma set_dropped_cols:
  "set (dropped_cols df) = {c \<in> set (year_cols df). \<exists>n. Digit n \<in> set c}"
proof -
  have "to_numeric_str c = None \<longleftrightarrow> (\<exists>n. Digit n \<in> set c)" if "c \<in> set (year_cols df)" for c
  proof -
    have f: "fullmatch_d4 c" using that by (simp add: set_year_cols)
    then have "list_all is_decimal c" by (simp add: fullmatch_d4_def)
    then show ?thesis using to_numeric_str_None[OF f] decimal_latin_of by simp
  qed
  then show ?thesis by (auto simp: dropped_cols_def)
qed

lemma length_kept_dropped:
  "length (kept_cols df) + length (dropped_cols df) = length (year_cols df)"
  unfolding kept_cols_def dropped_cols_def
  using sum_length_filter_compl[of "\<lambda>c. to_numeric_str c = None" "year_cols df"] by simp

text \<open>Python's text of a list of names.\<close>

lemma join_Cons: "join sep (x # xs) = x @ concat (map (\<lambda>y. sep @ y) xs)"
  by (induction xs arbitrary: x) simp_all

lemma repr_list_Cons:
  "repr_list (m # ms) =
    ''['' @ [CHR 0x27] @ m @ [CHR 0x27] @
    concat (map (\<lambda>c. '', '' @ [CHR 0x27] @ c @ [CHR 0x27]) ms) @ '']''"
  by (simp add: repr_list_def join_Cons repr_str_def comp_def)

subsection \<open>Claims about the loader\<close>

text \<open>
  C1. In the table that \<open>load_edstats\<close> returns, the \<open>Missing\<close> flag of a record is
  true exactly when its \<open>Value\<close> is null: no record has a numeric value and the flag
  set, and none has a null value and the flag clear.
\<close>

theorem missing_iff_value_null:
  assumes "load_edstats read_csv path = Inr data" and "r \<in> set data"
  shows "Missing r \<longleftrightarrow> Value r = None"
proof -
  obtain df where "data = melted_rows df"
    using assms(1) by (rule load_edstats_Inr)
  then obtain row c where "r = canonical_row df row c"
    using assms(2) by (auto simp: set_melted_rows)
  then show ?thesis by (simp add: canonical_row_def)
qed

theorem missing_iff_value_null_witness:
  "load_edstats (reads sample_df) CSV_URL = Inr sample_data \<and>
   sample_data ! 1 \<in> set sample_data \<and>
   (Missing (sample_data ! 1) \<longleftrightarrow> Value (sample_data ! 1) = None) \<and>
   Missing (sample_data ! 1)"
proof -
  have l: "load_edstats (reads sample_df) CSV_URL = Inr sample_data" by (rule load_sample)
  have m: "sample_data ! 1 \<in> set sample_data" by (simp add: sample_data_def)
  show ?thesis
    using l m missing_iff_value_null[OF l m] by (simp add: sample_data_def)
qed

text \<open>
  C2. Whatever the source, no record of the table has a year below 1970 or above 2015.
  When the four-digit columns of the source are 1968, 1969, 1970, 1971, 2015 and 2016,
  the year columns kept are 1970, 1971 and 2015, and no record has another year.
\<close>

theorem year_bound:
  assumes "read_csv path = Inr df" and "load_edstats read_csv path = Inr data"
  shows "(\<forall>r\<in>set data. 1970 \<le> Year r \<and> Year r \<le> 2015) \<and>
         (filter fullmatch_d4 (columns df) =
            map lat [''1968'', ''1969'', ''1970'', ''1971'', ''2015'', ''2016''] \<longrightarrow>
          year_cols df = map lat [''1970'', ''1971'', ''2015''] \<and>
          Year ` set data \<subseteq> {1970, 1971, 2015})"
proof -
  obtain df' where rd: "read_csv path = Inr df'" and data: "data = melted_rows df'"
    using assms(2) by (rule load_edstats_Inr)
  have df: "df' = df" using rd assms(1) by simp
  have bound: "\<forall>r\<in>set data. 1970 \<le> Year r \<and> Year r \<le> 2015"
    using set_kept_cols[of df']
    by (auto simp: data set_melted_rows set_year_cols canonical_row_def)
  have scen: "year_cols df = map lat [''1970'', ''1971'', ''2015''] \<and>
      Year ` set data \<subseteq> {1970, 1971, 2015}"
    if f: "filter fullmatch_d4 (columns df) =
      map lat [''1968'', ''1969'', ''1970'', ''1971'', ''2015'', ''2016'']"
  proof -
    have yc: "year_cols df = map lat [''1970'', ''1971'', ''2015'']"
      unfolding year_cols_def f
      by (simp add: py_int_lat digits_val_def digit_val_def)
    have "Year ` set data \<subseteq> py_int ` set (year_cols df)"
      using set_kept_cols[of df]
      by (auto simp: data df set_melted_rows canonical_row_def)
    also have "\<dots> = {1970, 1971, 2015}"
      unfolding yc by (simp add: py_int_lat digits_val_def digit_val_def)
    finally show ?thesis using yc by simp
  qed
  show ?thesis using bound scen by blast
qed

theorem year_bound_witness:
  "reads sample_df CSV_URL = Inr sample_df \<and>
   load_edstats (reads sample_df) CSV_URL = Inr sample_data \<and>
   map Year sample_data = [1970, 1970, 1971, 1971, 2015, 2015] \<and>
   filter fullmatch_d4 (columns sample_df) =
     map lat [''1968'', ''1969'', ''1970'', ''1971'', ''2015'', ''2016''] \<and>
   year_cols sample_df = map lat [''1970'', ''1971'', ''2015'']"
proof -
  have r: "reads sample_df CSV_URL = Inr sample_df" by (simp add: reads_def)
  have l: "load_edstats (reads sample_df) CSV_URL = Inr sample_data" by (rule load_sample)
  have f: "filter fullmatch_d4 (columns sample_df) =
     map lat [''1968'', ''1969'', ''1970'', ''1971'', ''2015'', ''2016'']"
    by (simp add: sample_df_def fullmatch_d4_def isdigit_def lat_def)
  have y: "map Year sample_data = [1970, 1970, 1971, 1971, 2015, 2015]"
    by (simp add: sample_data_def)
  show ?thesis
    using r l f y year_bound[OF r l] by simp
qed

text \<open>
  C3, as stated, fails. A source with a country and an indicator on two rows, and a
  third row whose country fields are empty, gives three records: two for the same
  country, indicator and year, and one whose country is null.
\<close>

theorem one_record_per_triple_counterexample:
  "load_edstats (reads twice_df) CSV_URL = Inr [twice_record, twice_record, nameless_record] \<and>
   length (records_of [twice_record, twice_record, nameless_record]
             (Some ''Chad'', Some ''Literacy'') 1970) = 2 \<and>
   Country_Name nameless_record = None"
  by (simp add: load_twice records_of_def twice_record_def nameless_record_def)

text \<open>
  C3, amended. The number of records is the number of source rows times the number of
  in-bound year columns, minus the records dropped for an unparseable year: one for
  each source row and each in-bound year column whose label has a digit outside ASCII.
  Every source row counts, whatever its identity cells hold. The records are those of
  the source rows and the year columns that are not dropped, and no other. When the
  column labels are distinct and no two source rows have the same country and
  indicator, each country, indicator and year of a source row and such a column has
  exactly one record.
\<close>

theorem record_count:
  assumes "read_csv path = Inr df" and "load_edstats read_csv path = Inr data"
  shows "length data =
           length (rows df) * length (year_cols df) - length (rows df) * length (dropped_cols df) \<and>
         length (dropped_cols df) \<le> length (year_cols df) \<and>
         set (dropped_cols df) = {c \<in> set (year_cols df). \<exists>n. Digit n \<in> set c} \<and>
         set (kept_cols df) = set (year_cols df) - set (dropped_cols df) \<and>
         set data = (\<lambda>(c, r). canonical_row df r c) ` (set (kept_cols df) \<times> set (rows df)) \<and>
         (distinct (columns df) \<and> distinct (map (identity_of df) (rows df)) \<longrightarrow>
          (\<forall>r\<in>set (rows df). \<forall>c\<in>set (kept_cols df).
             length (records_of data (identity_of df r) (py_int c)) = 1))"
proof -
  obtain df' where rd: "read_csv path = Inr df'" and data': "data = melted_rows df'"
    using assms(2) by (rule load_edstats_Inr)
  have data: "data = melted_rows df" using rd assms(1) data' by simp
  let ?key = "\<lambda>x::canonical. ((Country_Name x, Indicator_Name x), Year x)"
  have "length data = length (rows df) * length (kept_cols df)"
    by (simp add: data melted_rows_def length_concat_map_map)
  also have "length (kept_cols df) = length (year_cols df) - length (dropped_cols df)"
    using length_kept_dropped[of df] by arith
  finally have len: "length data =
      length (rows df) * length (year_cols df) - length (rows df) * length (dropped_cols df)"
    by (simp add: diff_mult_distrib2)
  have le: "length (dropped_cols df) \<le> length (year_cols df)"
    using length_kept_dropped[of df] by simp
  have kept: "set (kept_cols df) = set (year_cols df) - set (dropped_cols df)"
    by (auto simp: kept_cols_def dropped_cols_def)
  have st: "set data = (\<lambda>(c, r). canonical_row df r c) ` (set (kept_cols df) \<times> set (rows df))"
    by (simp add: data set_melted_rows)
  have one: "length (records_of data (identity_of df r) (py_int c)) = 1"
    if dc: "distinct (columns df)" and dr: "distinct (map (identity_of df) (rows df))"
      and r: "r \<in> set (rows df)" and c: "c \<in> set (kept_cols df)" for r c
  proof -
    have keys: "map ?key data =
        concat (map (\<lambda>c. map (\<lambda>r. (identity_of df r, py_int c)) (rows df)) (kept_cols df))"
      by (simp add: data melted_rows_def map_concat comp_def canonical_row_def identity_of_def)
    have dk: "distinct (map ?key data)"
      unfolding keys using distinct_years[OF dc] dr by (rule distinct_keys)
    have mem: "(identity_of df r, py_int c) \<in> set (map ?key data)"
      unfolding keys using r c by auto
    have "records_of data (identity_of df r) (py_int c)
          = filter (\<lambda>x. ?key x = (identity_of df r, py_int c)) data"
      by (simp add: records_of_def)
    then have "length (records_of data (identity_of df r) (py_int c))
          = length (filter (\<lambda>k. k = (identity_of df r, py_int c)) (map ?key data))"
      by (simp add: filter_map comp_def)
    also have "\<dots> = card ({k. k = (identity_of df r, py_int c)} \<inter> set (map ?key data))"
      using dk by (rule distinct_length_filter)
    also have "{k. k = (identity_of df r, py_int c)} \<inter> set (map ?key data) =
        {(identity_of df r, py_int c)}"
      using mem by auto
    finally show ?thesis by simp
  qed
  show ?thesis
    apply (intro conjI)
    subgoal by (rule len)
    subgoal by (rule le)
    subgoal by (rule set_dropped_cols)
    subgoal by (rule kept)
    subgoal by (rule st)
    subgoal using one by blast
    done
qed

theorem record_count_witness:
  "reads mixed_df CSV_URL = Inr mixed_df \<and>
   load_edstats (reads mixed_df) CSV_URL = Inr mixed_data \<and>
   length (rows mixed_df) = 2 \<and> year_cols mixed_df = [lat ''1970'', arabic_1971] \<and>
   dropped_cols mixed_df = [arabic_1971] \<and> kept_cols mixed_df = [lat ''1970''] \<and>
   length mixed_data = 2 * 2 - 2 * 1 \<and>
   distinct (columns mixed_df) \<and> distinct (map (identity_of mixed_df) (rows mixed_df)) \<and>
   rows mixed_df ! 1 \<in> set (rows mixed_df) \<and>
   identity_of mixed_df (rows mixed_df ! 1) = (Some ''Peru'', Some ''Literacy'') \<and>
   length (records_of mixed_data (Some ''Peru'', Some ''Literacy'') 1970) = 1"
proof -
  have r: "reads mixed_df CSV_URL = Inr mixed_df" by (simp add: reads_def)
  have l: "load_edstats (reads mixed_df) CSV_URL = Inr mixed_data" by (rule load_mixed)
  have dc: "distinct (columns mixed_df)"
    by (simp add: mixed_df_def arabic_1971_def lat_def)
  have dr: "distinct (map (identity_of mixed_df) (rows mixed_df))"
    by (simp add: mixed_df_def identity_of_def cell_at_def lat_def arabic_1971_def)
  have m: "rows mixed_df ! 1 \<in> set (rows mixed_df)" "lat ''1970'' \<in> set (kept_cols mixed_df)"
    by (simp_all add: kept_cols_mixed) (simp add: mixed_df_def)
  have i: "identity_of mixed_df (rows mixed_df ! 1) = (Some ''Peru'', Some ''Literacy'')"
    by (simp add: mixed_df_def identity_of_def cell_at_def lat_def arabic_1971_def)
  have y: "py_int (lat ''1970'') = 1970"
    by (simp add: py_int_lat digits_val_def digit_val_def)
  have n: "length (rows mixed_df) = 2" by (simp add: mixed_df_def)
  from record_count[OF r l] dc dr m
  have len: "length mixed_data =
      length (rows mixed_df) * length (year_cols mixed_df) -
      length (rows mixed_df) * length (dropped_cols mixed_df)"
    and one: "length (records_of mixed_data (identity_of mixed_df (rows mixed_df ! 1))
                 (py_int (lat ''1970''))) = 1"
    by blast+
  show ?thesis
    using r l dc dr m(1) n i len one[unfolded i y]
    by (simp add: year_cols_mixed dropped_cols_mixed kept_cols_mixed)
qed

text \<open>
  C4, on a source whose year column the reader types as bool. The token \<open>True\<close> is no
  numeric literal, yet the record of that cell carries the value \<open>True\<close> and its
  \<open>Missing\<close> flag is clear.
\<close>

theorem boolean_cell_not_missing:
  "load_edstats (reads flag_df) CSV_URL = Inr [flag_record] \<and>
   cell_at (columns flag_df) (rows flag_df ! 0) (lat ''1970'') = Bool True \<and>
   Value flag_record = Some (Boolean True) \<and> \<not> Missing flag_record \<and>
   floatify ''True'' = None"
proof -
  have l: "load_edstats (reads flag_df) CSV_URL = Inr [flag_record]" by (rule load_flag)
  have c: "cell_at (columns flag_df) (rows flag_df ! 0) (lat ''1970'') = Bool True"
    by (simp add: flag_df_def cell_at_def lat_def)
  have v: "Value flag_record = Some (Boolean True) \<and> \<not> Missing flag_record"
    by (simp add: flag_record_def)
  have t: "floatify ''True'' = None"
    by (simp add: floatify_def to_double_def isspace_def isdigit_def lower_def)
  show ?thesis using l c v t by simp
qed

text \<open>
  C5. When the source lacks at least one of the four identity columns, \<open>load_edstats\<close>
  raises the ValueError whose message is \<open>Missing columns in CSV:\<close> followed by Python's
  text of the list of the missing columns: those of the four names that the source
  lacks and no other, in the order of \<open>required_cols\<close>, each between single quotes. The
  script then shows that message in its error box and stops, with no chart and no KPI
  on the page.
\<close>

theorem schema_error:
  assumes "read_csv path = Inr df" and "\<not> set (map lat required_cols) \<subseteq> set (columns df)"
  shows "\<exists>m ms.
           filter (\<lambda>c. lat c \<notin> set (columns df))
             [''Country Name'', ''Country Code'', ''Indicator Name'', ''Indicator Code''] = m # ms \<and>
           load_edstats read_csv path =
             Inl (ValueError (''Missing columns in CSV: ['' @ [CHR 0x27] @ m @ [CHR 0x27] @
                    concat (map (\<lambda>c. '', '' @ [CHR 0x27] @ c @ [CHR 0x27]) ms) @ '']'')) \<and>
           (path = CSV_URL \<longrightarrow>
              app read_csv u =
                Stopped (''Could not load CSV from Google Drive. Details: '' @
                    ''Missing columns in CSV: ['' @ [CHR 0x27] @ m @ [CHR 0x27] @
                    concat (map (\<lambda>c. '', '' @ [CHR 0x27] @ c @ [CHR 0x27]) ms) @ '']''))"
proof -
  have ne: "missing_required df \<noteq> []" using assms(2) by (simp add: missing_required_Nil)
  then obtain m ms where mm: "missing_required df = m # ms"
    by (cases "missing_required df") auto
  have f: "filter (\<lambda>c. lat c \<notin> set (columns df))
             [''Country Name'', ''Country Code'', ''Indicator Name'', ''Indicator Code''] = m # ms"
    using mm by (simp add: missing_required_def required_cols_def)
  have l: "load_edstats read_csv path =
           Inl (ValueError (''Missing columns in CSV: '' @ repr_list (m # ms)))"
    using assms(1) mm by (simp add: load_edstats_def)
  have a: "app read_csv u =
      Stopped (''Could not load CSV from Google Drive. Details: '' @
         ''Missing columns in CSV: '' @ repr_list (m # ms))" if "path = CSV_URL"
    using l that by (simp add: app_def)
  show ?thesis
    using f l a unfolding repr_list_Cons by (intro exI[of _ m] exI[of _ ms]) simp
qed

theorem schema_error_witness:
  "reads headless_df CSV_URL = Inr headless_df \<and>
   \<not> set (map lat required_cols) \<subseteq> set (columns headless_df) \<and>
   load_edstats (reads headless_df) CSV_URL =
     Inl (ValueError (''Missing columns in CSV: ['' @ [CHR 0x27] @ ''Country Code'' @ [CHR 0x27] @
            '', '' @ [CHR 0x27] @ ''Indicator Code'' @ [CHR 0x27] @ '']'')) \<and>
   app (reads headless_df) \<lparr>pick_country = None, pick_indicator = None, pick_years = None\<rparr> =
     Stopped (''Could not load CSV from Google Drive. Details: Missing columns in CSV: ['' @
        [CHR 0x27] @ ''Country Code'' @ [CHR 0x27] @
        '', '' @ [CHR 0x27] @ ''Indicator Code'' @ [CHR 0x27] @ '']'')"
proof -
  have r: "reads headless_df CSV_URL = Inr headless_df" by (simp add: reads_def)
  have q: "\<not> set (map lat required_cols) \<subseteq> set (columns headless_df)"
    by (simp add: required_cols_def headless_df_def lat_def)
  have f: "filter (\<lambda>c. lat c \<notin> set (columns headless_df))
             [''Country Name'', ''Country Code'', ''Indicator Name'', ''Indicator Code''] =
             [''Country Code'', ''Indicator Code'']"
    by (simp add: headless_df_def lat_def)
  from schema_error[of "reads headless_df" CSV_URL headless_df
        "\<lparr>pick_country = None, pick_indicator = None, pick_years = None\<rparr>", OF r q]
  show ?thesis
    using r q unfolding f by auto
qed

section \<open>Properties of the filtered view\<close>

lemma mask_and_map: "mask_and (map p xs) (map q xs) = map (\<lambda>x. p x \<and> q x) xs"
  by (induction xs) (simp_all add: mask_and_def)

lemma getitem_mask_map: "getitem_mask xs (map p xs) = filter p xs"
  by (induction xs) (simp_all add: getitem_mask_def)

lemma filter_df_eq:
  "filter_df data country indicator year_min year_max =
   filter (\<lambda>r. (eq_scalar (Country_Name r) country \<and> eq_scalar (Indicator_Name r) indicator) \<and>
               between year_min year_max (Year r)) data"
  by (simp only: filter_df_def mask_and_map getitem_mask_map)

text \<open>
  C6. For every table and every chosen country, indicator and year range, the filtered
  view holds exactly the records whose country equals the chosen country, whose
  indicator equals the chosen indicator and whose year lies between the two ends of the
  range, both included, each as often and in the order the table has it. The step is a
  total function: it raises nothing, and a choice that nothing matches gives the empty
  view.
\<close>

theorem filter_selects:
  "filter_df data (Some country) (Some indicator) year_min year_max =
     filter (\<lambda>r. Country_Name r = Some country \<and> Indicator_Name r = Some indicator \<and>
                 year_min \<le> Year r \<and> Year r \<le> year_max) data"
  by (simp add: filter_df_eq eq_scalar_def between_def conj_assoc)

theorem filter_selects_witness:
  "filter_df sample_data (Some ''Brazil'') (Some ''Literacy'') 1971 2015 =
     [sample_data ! 3, sample_data ! 5] \<and>
   filter_df sample_data (Some ''Brazil'') (Some ''Population'') 1971 2015 = []"
  using filter_selects[of sample_data "''Brazil''" "''Literacy''" 1971 2015]
    filter_selects[of sample_data "''Brazil''" "''Population''" 1971 2015]
  by (simp add: sample_data_def)

text \<open>
  C7. Filtering a filtered view again by the same country, indicator and year range
  returns that view unchanged.
\<close>

theorem filter_idempotent:
  "filter_df (filter_df data country indicator year_min year_max)
     country indicator year_min year_max =
   filter_df data country indicator year_min year_max"
  by (simp add: filter_df_eq)

theorem filter_idempotent_witness:
  "filter_df (filter_df sample_data (Some ''Brazil'') (Some ''Literacy'') 1971 2015)
     (Some ''Brazil'') (Some ''Literacy'') 1971 2015 = [sample_data ! 3, sample_data ! 5]"
  using filter_idempotent[of sample_data "Some ''Brazil''" "Some ''Literacy''" 1971 2015]
  by (simp add: filter_df_eq eq_scalar_def between_def sample_data_def)

section \<open>Properties of the sidebar\<close>












lemma countries_sample: "countries sample_data = [''Arab World'', ''Brazil'']"
  by (simp add: countries_def unique_def sample_data_def)



section \<open>Properties of the KPIs\<close>

lemma kpi_row_eq:
  "kpi_row year_min year_max df =
    (if year_max - year_min + 1 = 0 then Inl (ZeroDivisionError ''division by zero'')
     else
       Inr \<lparr>selected_years = year_max - year_min + 1,
            non_missing_points = non_missing df,
            coverage_pct = of_int (non_missing df) / of_int (year_max - year_min + 1) * 100,
            missing_points = year_max - year_min + 1 - non_missing df,
            missing_pct =
              of_int (year_max - year_min + 1 - non_missing df) /
              of_int (year_max - year_min + 1) * 100\<rparr>)"
  by (simp add: kpi_row_def py_truediv_def total_years_def)

lemma default_country_Inl:
  "default_country cs = Inl e \<Longrightarrow> e = IndexError ''list index out of range''"
  by (cases cs) (auto simp: default_country_def split: if_splits)

lemma py_index_Inl: "py_index xs v = Inl e \<Longrightarrow> e = ValueError ''value is not in list''"
  by (induction xs) (auto split: if_splits sum.splits)

lemma selectbox_Inl:
  "selectbox xs i p = Inl e \<Longrightarrow>
   e = OtherError ''Selectbox index must be between 0 and length of options''"
  by (auto simp: selectbox_def split: if_splits option.splits)

lemma indicator_index_Inl:
  "indicator_index inds = Inl e \<Longrightarrow> e = ValueError ''value is not in list''"
  by (auto simp: indicator_index_def split: option.splits if_splits dest: py_index_Inl)

text \<open>The page divides by zero only when the range of the slider holds no year.\<close>

lemma page_ZeroDivisionError:
  assumes "page data u = Inl (ZeroDivisionError m)"
    and s: "slider 1970 2015 (1970, 2015) (pick_years u) = (lo, hi)"
  shows "hi - lo + 1 = 0"
proof (cases "default_country (countries data)")
  case (Inl a)
  then show ?thesis using assms default_country_Inl[OF Inl] by (simp add: page_def)
next
  case dc: (Inr dc)
  show ?thesis
  proof (cases "py_index (countries data) dc")
    case (Inl a)
    then show ?thesis using assms dc py_index_Inl[OF Inl] by (simp add: page_def)
  next
    case ci: (Inr ci)
    show ?thesis
    proof (cases "selectbox (countries data) ci (pick_country u)")
      case (Inl a)
      then show ?thesis using assms dc ci selectbox_Inl[OF Inl] by (simp add: page_def)
    next
      case country: (Inr country)
      show ?thesis
      proof (cases "indicator_index (ind_for_country data country)")
        case (Inl a)
        then show ?thesis
          using assms dc ci country indicator_index_Inl[OF Inl] by (simp add: page_def)
      next
        case ii: (Inr ii)
        show ?thesis
        proof (cases "selectbox (ind_for_country data country) ii (pick_indicator u)")
          case (Inl a)
          then show ?thesis
            using assms dc ci country ii selectbox_Inl[OF Inl] by (simp add: page_def)
        next
          case indicator: (Inr indicator)
          show ?thesis
          proof (cases "kpi_row lo hi (filter_df data country indicator lo hi)")
            case (Inl a)
            then show ?thesis by (simp add: kpi_row_eq split: if_splits)
          next
            case (Inr k)
            then show ?thesis using assms dc ci country ii indicator by (simp add: page_def)
          qed
        qed
      qed
    qed
  qed
qed

lemma inds_arab: "ind_for_country sample_data (Some ''Arab World'') = [''Literacy'']"
  by (simp add: ind_for_country_def getitem_mask_def eq_scalar_def unique_def sample_data_def)

text \<open>A run with the slider's state at 1980 and 1979.\<close>

lemma page_crossed:
  "page sample_data \<lparr>pick_country = None, pick_indicator = None, pick_years = Some (1980, 1979)\<rparr> =
     Inl (ZeroDivisionError ''division by zero'')"
proof -
  have dc: "default_country (countries sample_data) = Inr ''Arab World''"
    by (simp add: countries_sample default_country_def)
  have ci: "py_index (countries sample_data) ''Arab World'' = Inr 0"
    by (simp add: countries_sample)
  have c: "selectbox (countries sample_data) 0 None = Inr (Some ''Arab World'')"
    by (simp add: countries_sample selectbox_def)
  have ii: "indicator_index (ind_for_country sample_data (Some ''Arab World'')) = Inr 0"
    by (simp add: inds_arab indicator_index_def default_indicator_def candidates_def)
  have i: "selectbox (ind_for_country sample_data (Some ''Arab World'')) 0 None =
      Inr (Some ''Literacy'')"
    by (simp add: inds_arab selectbox_def)
  have s: "slider 1970 2015 (1970, 2015) (Some (1980, 1979)) = (1980, 1979)"
    by (simp add: slider_def)
  have k: "kpi_row 1980 1979 d = Inl (ZeroDivisionError ''division by zero'')" for d
    by (simp add: kpi_row_eq)
  show ?thesis
    by (simp add: page_def dc ci c ii i s k)
qed

text \<open>
  C9, as stated, fails. Nothing in the script guards the two divisions: with the state
  of the slider at 1980 and 1979 the number of selected years is zero, and the run ends
  with ZeroDivisionError.
\<close>

theorem kpi_division_counterexample:
  "slider 1970 2015 (1970, 2015) (Some (1980, 1979)) = (1980, 1979) \<and>
   total_years 1980 1979 = 0 \<and>
   kpi_row 1980 1979 sample_data = Inl (ZeroDivisionError ''division by zero'') \<and>
   page sample_data \<lparr>pick_country = None, pick_indicator = None, pick_years = Some (1980, 1979)\<rparr> =
     Inl (ZeroDivisionError ''division by zero'') \<and>
   app (reads sample_df) \<lparr>pick_country = None, pick_indicator = None, pick_years = Some (1980, 1979)\<rparr> =
     Crashed (ZeroDivisionError ''division by zero'')"
  by (simp add: slider_def total_years_def kpi_row_eq page_crossed app_def load_sample)

text \<open>
  C9, amended. For every year range, the number of selected years is the upper end
  minus the lower end plus one, the missing count is the selected years minus the
  non-missing count, and the two percentages are the non-missing count and the missing
  count over the selected years, times 100. The divisions are not guarded: they are
  evaluated whenever the selected years are not zero, which is so for every range whose
  lower end is not above its upper end, and they raise ZeroDivisionError when the
  selected years are zero. A run of the page raises it in that case only.
\<close>

theorem kpi_division:
  "total_years year_min year_max = year_max - year_min + 1 \<and>
   kpi_row year_min year_max df =
     (if year_max - year_min + 1 = 0 then Inl (ZeroDivisionError ''division by zero'')
      else
        Inr \<lparr>selected_years = year_max - year_min + 1,
             non_missing_points = non_missing df,
             coverage_pct = of_int (non_missing df) / of_int (year_max - year_min + 1) * 100,
             missing_points = year_max - year_min + 1 - non_missing df,
             missing_pct =
               of_int (year_max - year_min + 1 - non_missing df) /
               of_int (year_max - year_min + 1) * 100\<rparr>) \<and>
   (year_min \<le> year_max \<longrightarrow> 1 \<le> total_years year_min year_max) \<and>
   non_missing df + (total_years year_min year_max - non_missing df) =
     total_years year_min year_max \<and>
   (\<forall>data u m lo hi.
      page data u = Inl (ZeroDivisionError m) \<and>
      slider 1970 2015 (1970, 2015) (pick_years u) = (lo, hi) \<longrightarrow> total_years lo hi = 0)"
proof -
  have t: "total_years year_min year_max = year_max - year_min + 1"
    by (simp add: total_years_def)
  have pos: "1 \<le> total_years year_min year_max" if "year_min \<le> year_max"
    using that by (simp add: total_years_def)
  have sum: "non_missing df + (total_years year_min year_max - non_missing df) =
      total_years year_min year_max"
    by simp
  have pg: "total_years lo hi = 0"
    if "page data u = Inl (ZeroDivisionError m) \<and>
        slider 1970 2015 (1970, 2015) (pick_years u) = (lo, hi)" for data u m lo hi
    using that page_ZeroDivisionError[of data u m lo hi] by (simp add: total_years_def)
  show ?thesis
    apply (intro conjI)
    subgoal by (rule t)
    subgoal by (rule kpi_row_eq)
    subgoal using pos by blast
    subgoal by (rule sum)
    subgoal using pg by blast
    done
qed

theorem kpi_division_witness:
  "total_years 1971 2015 = 45 \<and>
   kpi_row 1971 2015 (filter_df sample_data (Some ''Brazil'') (Some ''Literacy'') 1971 2015) =
     Inr \<lparr>selected_years = 45, non_missing_points = 2, coverage_pct = 40 / 9,
          missing_points = 43, missing_pct = 860 / 9\<rparr> \<and>
   page sample_data \<lparr>pick_country = None, pick_indicator = None, pick_years = Some (1980, 1979)\<rparr> =
     Inl (ZeroDivisionError ''division by zero'') \<and>
   slider 1970 2015 (1970, 2015)
     (pick_years \<lparr>pick_country = None, pick_indicator = None, pick_years = Some (1980, 1979)\<rparr>) =
     (1980, 1979) \<and>
   total_years 1980 1979 = 0"
proof -
  let ?u = "\<lparr>pick_country = None, pick_indicator = None, pick_years = Some (1980, 1979)\<rparr>"
  have n: "non_missing (filter_df sample_data (Some ''Brazil'') (Some ''Literacy'') 1971 2015) = 2"
    by (simp add: non_missing_def filter_df_eq eq_scalar_def between_def sample_data_def)
  have s: "slider 1970 2015 (1970, 2015) (pick_years ?u) = (1980, 1979)"
    by (simp add: slider_def)
  note k = kpi_division[of 1971 2015
      "filter_df sample_data (Some ''Brazil'') (Some ''Literacy'') 1971 2015"]
  have le: "(1971::int) \<le> 2015" by simp
  from k le have "1 \<le> total_years 1971 2015" by blast
  from k page_crossed s have z: "total_years 1980 1979 = 0" by blast
  show ?thesis
    using k page_crossed s z by (simp add: n)
qed

section \<open>Properties of the charts\<close>


end
